theory Spec2Isabelle
  imports Complex_Main
begin

section \<open>Python numbers and errors\<close>

text \<open>
  The scripts apply \<open>-\<close>, \<open>*\<close>, \<open>+\<close>, \<open>abs\<close> and \<open><\<close> to the coordinates they
  are given, and call \<open>math.sqrt\<close> and \<open>float('inf')\<close> of the Python library. The
  strategies are embedded over any coordinate type \<open>'a\<close> with these operations and any
  linearly ordered type \<open>'v\<close> of compared values; the library parts are the fields of a
  record of numerics. \<open>math.sqrt\<close> can raise (\<open>OverflowError\<close> on an int too large for a
  float, \<open>ValueError\<close> on a negative number), so it returns a sum. Comparison on \<open>'v\<close>
  is a linear order: a run in which a NaN is compared is outside the model.
\<close>

datatype py_error = OverflowError | ValueError | StatisticsError

record ('a, 'v) numerics =
  math_sqrt :: "'a \<Rightarrow> py_error + 'v"
  as_value :: "'a \<Rightarrow> 'v"
  float_inf :: "'v"

text \<open>
  The local variables of one strategy call. \<open>sources\<close> and \<open>target\<close> are the two
  arguments; \<open>min_dist\<close> (\<open>min_dist_sq\<close> in the squared strategies) and
  \<open>closest_point\<close> are the current best.
\<close>

record ('p, 'v) frame =
  sources :: "'p list"
  target :: "'p"
  min_dist :: "'v"
  closest_point :: "'p option"

definition enter :: "('a, 'v) numerics \<Rightarrow> 'p list \<Rightarrow> 'p \<Rightarrow> ('p, 'v) frame" where
  "enter N srcs tgt =
     \<lparr>sources = srcs, target = tgt, min_dist = float_inf N, closest_point = None\<rparr>"

definition leave :: "('p, 'v) frame \<Rightarrow> 'p option \<times> 'v" where
  "leave s = (closest_point s, min_dist s)"

section \<open>2d-distance-compare.py\<close>

fun find_closest_with_sqrt_loop ::
  "('a::{minus,plus,times}, 'v::linorder) numerics \<Rightarrow> ('a \<times> 'a) list \<Rightarrow>
   ('a \<times> 'a, 'v) frame \<Rightarrow> py_error + ('a \<times> 'a, 'v) frame" where
  "find_closest_with_sqrt_loop N [] s = Inr s"
| "find_closest_with_sqrt_loop N ((x, y) # rest) s =
     (let dx = x - fst (target s);
          dy = y - snd (target s)
      in case math_sqrt N (dx * dx + dy * dy) of
           Inl e \<Rightarrow> Inl e
         | Inr dst \<Rightarrow>
             find_closest_with_sqrt_loop N rest
               (if dst < min_dist s
                then s\<lparr>min_dist := dst, closest_point := Some (x, y)\<rparr>
                else s))"

definition find_closest_with_sqrt ::
  "('a::{minus,plus,times}, 'v::linorder) numerics \<Rightarrow> ('a \<times> 'a) list \<Rightarrow> 'a \<times> 'a \<Rightarrow>
   py_error + (('a \<times> 'a) option \<times> 'v)" where
  "find_closest_with_sqrt N srcs tgt =
     (case find_closest_with_sqrt_loop N srcs (enter N srcs tgt) of
        Inl e \<Rightarrow> Inl e
      | Inr s \<Rightarrow> Inr (leave s))"

fun find_closest_with_squared_loop ::
  "('a::{minus,plus,times}, 'v::linorder) numerics \<Rightarrow> ('a \<times> 'a) list \<Rightarrow>
   ('a \<times> 'a, 'v) frame \<Rightarrow> ('a \<times> 'a, 'v) frame" where
  "find_closest_with_squared_loop N [] s = s"
| "find_closest_with_squared_loop N ((x, y) # rest) s =
     (let dx = x - fst (target s);
          dy = y - snd (target s);
          dist_sq = as_value N (dx * dx + dy * dy)
      in find_closest_with_squared_loop N rest
           (if dist_sq < min_dist s
            then s\<lparr>min_dist := dist_sq, closest_point := Some (x, y)\<rparr>
            else s))"

definition find_closest_with_squared ::
  "('a::{minus,plus,times}, 'v::linorder) numerics \<Rightarrow> ('a \<times> 'a) list \<Rightarrow> 'a \<times> 'a \<Rightarrow>
   ('a \<times> 'a) option \<times> 'v" where
  "find_closest_with_squared N srcs tgt =
     leave (find_closest_with_squared_loop N srcs (enter N srcs tgt))"

section \<open>3d-distance-compare.py\<close>

fun find_closest_3d_with_sqrt_loop ::
  "('a::{minus,plus,times}, 'v::linorder) numerics \<Rightarrow> ('a \<times> 'a \<times> 'a) list \<Rightarrow>
   ('a \<times> 'a \<times> 'a, 'v) frame \<Rightarrow> py_error + ('a \<times> 'a \<times> 'a, 'v) frame" where
  "find_closest_3d_with_sqrt_loop N [] s = Inr s"
| "find_closest_3d_with_sqrt_loop N ((x, y, z) # rest) s =
     (let dx = x - fst (target s);
          dy = y - fst (snd (target s));
          dz = z - snd (snd (target s))
      in case math_sqrt N (dx * dx + dy * dy + dz * dz) of
           Inl e \<Rightarrow> Inl e
         | Inr dst \<Rightarrow>
             find_closest_3d_with_sqrt_loop N rest
               (if dst < min_dist s
                then s\<lparr>min_dist := dst, closest_point := Some (x, y, z)\<rparr>
                else s))"

definition find_closest_3d_with_sqrt ::
  "('a::{minus,plus,times}, 'v::linorder) numerics \<Rightarrow> ('a \<times> 'a \<times> 'a) list \<Rightarrow>
   'a \<times> 'a \<times> 'a \<Rightarrow> py_error + (('a \<times> 'a \<times> 'a) option \<times> 'v)" where
  "find_closest_3d_with_sqrt N srcs tgt =
     (case find_closest_3d_with_sqrt_loop N srcs (enter N srcs tgt) of
        Inl e \<Rightarrow> Inl e
      | Inr s \<Rightarrow> Inr (leave s))"

fun find_closest_3d_with_squared_loop ::
  "('a::{minus,plus,times}, 'v::linorder) numerics \<Rightarrow> ('a \<times> 'a \<times> 'a) list \<Rightarrow>
   ('a \<times> 'a \<times> 'a, 'v) frame \<Rightarrow> ('a \<times> 'a \<times> 'a, 'v) frame" where
  "find_closest_3d_with_squared_loop N [] s = s"
| "find_closest_3d_with_squared_loop N ((x, y, z) # rest) s =
     (let dx = x - fst (target s);
          dy = y - fst (snd (target s));
          dz = z - snd (snd (target s));
          dist_sq = as_value N (dx * dx + dy * dy + dz * dz)
      in find_closest_3d_with_squared_loop N rest
           (if dist_sq < min_dist s
            then s\<lparr>min_dist := dist_sq, closest_point := Some (x, y, z)\<rparr>
            else s))"

definition find_closest_3d_with_squared ::
  "('a::{minus,plus,times}, 'v::linorder) numerics \<Rightarrow> ('a \<times> 'a \<times> 'a) list \<Rightarrow>
   'a \<times> 'a \<times> 'a \<Rightarrow> ('a \<times> 'a \<times> 'a) option \<times> 'v" where
  "find_closest_3d_with_squared N srcs tgt =
     leave (find_closest_3d_with_squared_loop N srcs (enter N srcs tgt))"

fun find_closest_3d_with_manhattan_loop ::
  "('a::{minus,plus,abs}, 'v::linorder) numerics \<Rightarrow> ('a \<times> 'a \<times> 'a) list \<Rightarrow>
   ('a \<times> 'a \<times> 'a, 'v) frame \<Rightarrow> ('a \<times> 'a \<times> 'a, 'v) frame" where
  "find_closest_3d_with_manhattan_loop N [] s = s"
| "find_closest_3d_with_manhattan_loop N ((x, y, z) # rest) s =
     (let dst = as_value N
            (\<bar>x - fst (target s)\<bar> + \<bar>y - fst (snd (target s))\<bar> + \<bar>z - snd (snd (target s))\<bar>)
      in find_closest_3d_with_manhattan_loop N rest
           (if dst < min_dist s
            then s\<lparr>min_dist := dst, closest_point := Some (x, y, z)\<rparr>
            else s))"

definition find_closest_3d_with_manhattan ::
  "('a::{minus,plus,abs}, 'v::linorder) numerics \<Rightarrow> ('a \<times> 'a \<times> 'a) list \<Rightarrow>
   'a \<times> 'a \<times> 'a \<Rightarrow> ('a \<times> 'a \<times> 'a) option \<times> 'v" where
  "find_closest_3d_with_manhattan N srcs tgt =
     leave (find_closest_3d_with_manhattan_loop N srcs (enter N srcs tgt))"

text \<open>
  The data generators. \<open>random.uniform(0, 1000)\<close> is the stream \<open>rnd\<close> of its successive
  results; \<open>range(num_points)\<close> is empty when \<open>num_points\<close> is not positive.
\<close>

definition generate_test_data ::
  "(nat \<Rightarrow> 'a::numeral) \<Rightarrow> int \<Rightarrow> ('a \<times> 'a) list \<times> ('a \<times> 'a)" where
  "generate_test_data rnd num_points =
     (map (\<lambda>i. (rnd (2 * i), rnd (2 * i + 1))) [0 ..< nat num_points], (500, 500))"

definition generate_3d_test_data ::
  "(nat \<Rightarrow> 'a::numeral) \<Rightarrow> int \<Rightarrow> ('a \<times> 'a \<times> 'a) list \<times> ('a \<times> 'a \<times> 'a)" where
  "generate_3d_test_data rnd num_points =
     (map (\<lambda>i. (rnd (3 * i), rnd (3 * i + 1), rnd (3 * i + 2))) [0 ..< nat num_points],
      (500, 500, 500))"

section \<open>Python ints\<close>

text \<open>
  The numerics of CPython on int coordinates, the kind of number the scripts write
  themselves (\<open>target = (500, 500)\<close>, \<open>point2 = (3, 4, 5)\<close>). Int arithmetic is exact
  and unbounded. A compared value is a finite number or \<open>float('inf')\<close>; Python compares
  an int with a float by their exact values. \<open>math.sqrt(n)\<close> first converts the int to
  the nearest double, ties to even, raising \<open>OverflowError\<close> when that is out of range,
  then takes the correctly rounded IEEE-754 square root.
\<close>

datatype pyval = Fin rat | PInf

instantiation pyval :: linorder
begin

fun less_pyval :: "pyval \<Rightarrow> pyval \<Rightarrow> bool" where
  "less_pyval (Fin a) (Fin b) = (a < b)"
| "less_pyval (Fin a) PInf = True"
| "less_pyval PInf b = False"

fun less_eq_pyval :: "pyval \<Rightarrow> pyval \<Rightarrow> bool" where
  "less_eq_pyval (Fin a) (Fin b) = (a \<le> b)"
| "less_eq_pyval a PInf = True"
| "less_eq_pyval PInf (Fin b) = False"

instance
proof
  fix x y z :: pyval
  show "(x < y) = (x \<le> y \<and> \<not> y \<le> x)"
    by (cases x; cases y) auto
  show "x \<le> x"
    by (cases x) auto
  show "x \<le> y \<Longrightarrow> y \<le> z \<Longrightarrow> x \<le> z"
    by (cases x; cases y; cases z) auto
  show "x \<le> y \<Longrightarrow> y \<le> x \<Longrightarrow> x = y"
    by (cases x; cases y) auto
  show "x \<le> y \<or> y \<le> x"
    by (cases x; cases y) auto
qed

end

fun bit_length :: "nat \<Rightarrow> nat" where
  "bit_length n = (if n = 0 then 0 else Suc (bit_length (n div 2)))"

fun isqrt_bits :: "nat \<Rightarrow> nat \<Rightarrow> nat \<Rightarrow> nat" where
  "isqrt_bits n 0 r = r"
| "isqrt_bits n (Suc i) r =
     isqrt_bits n i (if (r + 2 ^ i) * (r + 2 ^ i) \<le> n then r + 2 ^ i else r)"

definition isqrt :: "nat \<Rightarrow> nat" where
  "isqrt n = isqrt_bits n (bit_length n) 0"

definition float_of_nat :: "nat \<Rightarrow> py_error + nat" where
  "float_of_nat n =
     (let b = bit_length n in
      if b \<le> 53 then Inr n
      else
        let k = b - 53;
            q = n div 2 ^ k;
            r = n mod 2 ^ k;
            h = 2 ^ (k - 1);
            q' = (if h < r \<or> (r = h \<and> odd q) then q + 1 else q)
        in if 2 ^ 1024 \<le> q' * 2 ^ k then Inl OverflowError else Inr (q' * 2 ^ k))"

definition sqrt_double :: "nat \<Rightarrow> rat" where
  "sqrt_double x =
     (if x = 0 then 0
      else
        let e = (bit_length x - 1) div 2 in
        if e \<le> 52 then
          let y = x * 4 ^ (52 - e);
              m = isqrt y;
              m' = (if m * m + m < y then m + 1 else m)
          in of_nat m' / 2 ^ (52 - e)
        else
          let c = 4 ^ (e - 52);
              m = isqrt (x div c);
              m' = (if (2 * m + 1) * (2 * m + 1) * c < 4 * x then m + 1 else m)
          in of_nat m' * 2 ^ (e - 52))"

definition py_sqrt :: "int \<Rightarrow> py_error + pyval" where
  "py_sqrt n =
     (case float_of_nat (nat \<bar>n\<bar>) of
        Inl e \<Rightarrow> Inl e
      | Inr x \<Rightarrow> if n < 0 then Inl ValueError else Inr (Fin (sqrt_double x)))"

definition py :: "(int, pyval) numerics" where
  "py = \<lparr>math_sqrt = py_sqrt, as_value = (\<lambda>n. Fin (of_int n)), float_inf = PInf\<rparr>"

definition compare_distance_metrics ::
  "('a::{minus,plus,times,abs,numeral,zero}, 'v::linorder) numerics \<Rightarrow>
   py_error + ('v \<times> 'a \<times> 'a)" where
  "compare_distance_metrics N =
     (let point1 = (0, 0, 0);
          point2 = (3, 4, 5);
          dx = fst point2 - fst point1;
          dy = fst (snd point2) - fst (snd point1);
          dz = snd (snd point2) - snd (snd point1)
      in case math_sqrt N (dx * dx + dy * dy + dz * dz) of
           Inl e \<Rightarrow> Inl e
         | Inr euclidean \<Rightarrow>
             (let squared_euclidean = dx * dx + dy * dy + dz * dz;
                  manhattan = \<bar>dx\<bar> + \<bar>dy\<bar> + \<bar>dz\<bar>
              in Inr (euclidean, squared_euclidean, manhattan)))"

section \<open>The benchmark harness\<close>

text \<open>
  \<open>time.perf_counter()\<close> is the stream \<open>clock\<close> of its successive readings, \<open>tick\<close> the
  number of readings taken so far. Timings are real numbers. The functions of the
  \<open>statistics\<close> module and \<open>min\<close>, \<open>max\<close> are the library's, over exact reals: they raise
  on too few data points. The dictionary a benchmark returns is a record; its key
  \<open>'times'\<close> is the field \<open>timings\<close>.
\<close>

definition statistics_mean :: "real list \<Rightarrow> py_error + real" where
  "statistics_mean xs =
     (if xs = [] then Inl StatisticsError else Inr (sum_list xs / real (length xs)))"

definition statistics_median :: "real list \<Rightarrow> py_error + real" where
  "statistics_median xs =
     (if xs = [] then Inl StatisticsError
      else
        let data = sort xs; n = length data in
        if odd n then Inr (data ! (n div 2))
        else Inr ((data ! (n div 2 - 1) + data ! (n div 2)) / 2))"

definition statistics_stdev :: "real list \<Rightarrow> py_error + real" where
  "statistics_stdev xs =
     (if length xs < 2 then Inl StatisticsError
      else
        let m = sum_list xs / real (length xs) in
        Inr (sqrt (sum_list (map (\<lambda>x. (x - m) * (x - m)) xs) / real (length xs - 1))))"

definition py_min :: "real list \<Rightarrow> py_error + real" where
  "py_min xs = (if xs = [] then Inl ValueError else Inr (Min (set xs)))"

definition py_max :: "real list \<Rightarrow> py_error + real" where
  "py_max xs = (if xs = [] then Inl ValueError else Inr (Max (set xs)))"

record 'r benchmark =
  timings :: "real list"
  mean_time :: real
  median_time :: real
  std_dev :: real
  min_time :: real
  max_time :: real
  results :: "'r list"

fun benchmark_loop ::
  "('s \<Rightarrow> 't \<Rightarrow> py_error + 'r) \<Rightarrow> 's \<Rightarrow> 't \<Rightarrow> (nat \<Rightarrow> real) \<Rightarrow> nat \<Rightarrow> nat \<Rightarrow>
   real list \<times> 'r list \<Rightarrow> py_error + (real list \<times> 'r list)" where
  "benchmark_loop method_func srcs tgt clock 0 tick (ts, rs) = Inr (ts, rs)"
| "benchmark_loop method_func srcs tgt clock (Suc n) tick (ts, rs) =
     (let start_time = clock tick in
      case method_func srcs tgt of
        Inl e \<Rightarrow> Inl e
      | Inr result \<Rightarrow>
          (let end_time = clock (tick + 1) in
           benchmark_loop method_func srcs tgt clock n (tick + 2)
             (ts @ [end_time - start_time], rs @ [result])))"

definition summary :: "real list \<Rightarrow> 'r list \<Rightarrow> py_error + 'r benchmark" where
  "summary ts rs =
     (case statistics_mean ts of Inl e \<Rightarrow> Inl e | Inr mean \<Rightarrow>
      case statistics_median ts of Inl e \<Rightarrow> Inl e | Inr median \<Rightarrow>
      case (if 1 < length ts then statistics_stdev ts else Inr 0) of Inl e \<Rightarrow> Inl e | Inr sd \<Rightarrow>
      case py_min ts of Inl e \<Rightarrow> Inl e | Inr lo \<Rightarrow>
      case py_max ts of Inl e \<Rightarrow> Inl e | Inr hi \<Rightarrow>
        Inr \<lparr>timings = ts, mean_time = mean, median_time = median, std_dev = sd,
             min_time = lo, max_time = hi, results = rs\<rparr>)"

definition benchmark_method ::
  "('s \<Rightarrow> 't \<Rightarrow> py_error + 'r) \<Rightarrow> 's \<Rightarrow> 't \<Rightarrow> int \<Rightarrow> (nat \<Rightarrow> real) \<Rightarrow>
   py_error + 'r benchmark" where
  "benchmark_method method_func srcs tgt num_runs clock =
     (case benchmark_loop method_func srcs tgt clock (nat num_runs) 0 ([], []) of
        Inl e \<Rightarrow> Inl e
      | Inr (ts, rs) \<Rightarrow> summary ts rs)"

definition benchmark_3d_method ::
  "('s \<Rightarrow> 't \<Rightarrow> py_error + 'r) \<Rightarrow> 's \<Rightarrow> 't \<Rightarrow> int \<Rightarrow> (nat \<Rightarrow> real) \<Rightarrow>
   py_error + 'r benchmark" where
  "benchmark_3d_method method_func srcs tgt num_runs clock =
     (case benchmark_loop method_func srcs tgt clock (nat num_runs) 0 ([], []) of
        Inl e \<Rightarrow> Inl e
      | Inr (ts, rs) \<Rightarrow> summary ts rs)"

section \<open>The metrics and the scan\<close>

text \<open>
  The value each strategy computes for one point, and the loop the five strategies
  share: one pass, the current best replaced only by a strictly smaller value.
\<close>

definition sq_dist2 :: "'a::{minus,plus,times} \<times> 'a \<Rightarrow> 'a \<times> 'a \<Rightarrow> 'a" where
  "sq_dist2 t p = (fst p - fst t) * (fst p - fst t) + (snd p - snd t) * (snd p - snd t)"

definition sq_dist3 :: "'a::{minus,plus,times} \<times> 'a \<times> 'a \<Rightarrow> 'a \<times> 'a \<times> 'a \<Rightarrow> 'a" where
  "sq_dist3 t p =
     (fst p - fst t) * (fst p - fst t)
     + (fst (snd p) - fst (snd t)) * (fst (snd p) - fst (snd t))
     + (snd (snd p) - snd (snd t)) * (snd (snd p) - snd (snd t))"

definition manhattan3 :: "'a::{minus,plus,abs} \<times> 'a \<times> 'a \<Rightarrow> 'a \<times> 'a \<times> 'a \<Rightarrow> 'a" where
  "manhattan3 t p =
     \<bar>fst p - fst t\<bar> + \<bar>fst (snd p) - fst (snd t)\<bar> + \<bar>snd (snd p) - snd (snd t)\<bar>"

definition step :: "('p \<Rightarrow> 'v::linorder) \<Rightarrow> 'p \<Rightarrow> ('p, 'v) frame \<Rightarrow> ('p, 'v) frame" where
  "step k p s = (if k p < min_dist s then s\<lparr>min_dist := k p, closest_point := Some p\<rparr> else s)"

fun best :: "('p \<Rightarrow> 'v::linorder) \<Rightarrow> 'p list \<Rightarrow> ('p, 'v) frame \<Rightarrow> ('p, 'v) frame" where
  "best k [] s = s"
| "best k (p # ps) s = best k ps (step k p s)"

definition good :: "('p \<Rightarrow> 'v::linorder) \<Rightarrow> 'v \<Rightarrow> 'p set \<Rightarrow> ('p, 'v) frame \<Rightarrow> bool" where
  "good k bound S s \<longleftrightarrow>
     (closest_point s = None \<and> min_dist s = bound \<and> (\<forall>p\<in>S. \<not> k p < bound)) \<or>
     (\<exists>q\<in>S. closest_point s = Some q \<and> min_dist s = k q \<and> k q < bound \<and> (\<forall>p\<in>S. k q \<le> k p))"

definition first_minimum ::
  "('p \<Rightarrow> 'v::linorder) \<Rightarrow> 'v \<Rightarrow> 'p list \<Rightarrow> 'p \<Rightarrow> 'p list \<Rightarrow> bool" where
  "first_minimum k bound ys p zs \<longleftrightarrow>
     k p < bound \<and> (\<forall>q\<in>set ys. k p < k q) \<and> (\<forall>q\<in>set zs. k p \<le> k q)"

definition sqrt_is :: "('a, 'v) numerics \<Rightarrow> ('p \<Rightarrow> 'a) \<Rightarrow> ('p \<Rightarrow> 'v) \<Rightarrow> 'p list \<Rightarrow> bool" where
  "sqrt_is N d k ps \<longleftrightarrow> (\<forall>p\<in>set ps. math_sqrt N (d p) = Inr (k p))"

section \<open>Empty point sets\<close>

text \<open>
  C10. On an empty point set every strategy returns \<open>(None, float('inf'))\<close> and raises
  nothing; a generator asked for \<open>num_points \<le> 0\<close> points returns the empty point set
  (with the fixed target).
\<close>

theorem empty_point_set:
  "find_closest_with_sqrt N [] t2 = Inr (None, float_inf N) \<and>
   find_closest_with_squared N [] t2 = (None, float_inf N) \<and>
   find_closest_3d_with_sqrt N [] t3 = Inr (None, float_inf N) \<and>
   find_closest_3d_with_squared N [] t3 = (None, float_inf N) \<and>
   find_closest_3d_with_manhattan M [] t3 = (None, float_inf M) \<and>
   (num_points \<le> 0 \<longrightarrow>
      generate_test_data rnd2 num_points = ([], (500, 500)) \<and>
      generate_3d_test_data rnd3 num_points = ([], (500, 500, 500)))"
  by (simp add: find_closest_with_sqrt_def find_closest_with_squared_def
      find_closest_3d_with_sqrt_def find_closest_3d_with_squared_def
      find_closest_3d_with_manhattan_def enter_def leave_def
      generate_test_data_def generate_3d_test_data_def)

theorem empty_point_set_witness:
  "(- 3 :: int) \<le> 0 \<and>
   find_closest_with_sqrt py [] (500, 500) = Inr (None, PInf) \<and>
   find_closest_3d_with_manhattan py [] (500, 500, 500) = (None, PInf) \<and>
   generate_test_data (\<lambda>i. 0 :: int) (- 3) = ([], (500, 500)) \<and>
   generate_3d_test_data (\<lambda>i. 0 :: int) (- 3) = ([], (500, 500, 500))"
  using empty_point_set [where N = py and M = py and ?t2.0 = "(500, 500)"
      and ?t3.0 = "(500, 500, 500)" and num_points = "- 3"
      and ?rnd2.0 = "\<lambda>i. 0 :: int" and ?rnd3.0 = "\<lambda>i. 0 :: int"]
  by (simp add: py_def)

end
